theory Spec2Isabelle
  imports Main "HOL-Library.Word"
begin

unbundle bit_operations_syntax

section \<open>Integer arithmetic of the source language\<close>

text \<open>
  The solver computes with C++ \<open>int\<close>. Every score stays within a few dozen of zero,
  so the values are modelled as \<open>int\<close>; the one point where C++ differs from HOL on
  such values is division, which truncates towards zero.
\<close>

definition cdiv :: "int \<Rightarrow> int \<Rightarrow> int" where
  "cdiv a b = sgn a * sgn b * (\<bar>a\<bar> div \<bar>b\<bar>)"

section \<open>Position (position.hpp)\<close>

text \<open>
  Modelled from the spec: \<open>position.hpp\<close> is included by \<open>solver.cpp\<close> but is not
  among the sources. The class \<open>Position\<close> follows sections 3 and 4.1 of the
  specification: a bitboard of \<open>WIDTH * (HEIGHT + 1)\<close> bits in a 64-bit unsigned
  integer, column \<open>c\<close> in bits \<open>c * (HEIGHT + 1)\<close> upwards, the top bit of each column
  a sentinel that stays clear.
\<close>

type_synonym position_t = "64 word"

abbreviation WIDTH :: nat where "WIDTH \<equiv> 7"
abbreviation HEIGHT :: nat where "HEIGHT \<equiv> 6"

definition MIN_SCORE :: int where
  "MIN_SCORE = cdiv (- int (WIDTH * HEIGHT)) 2"

definition MAX_SCORE :: int where
  "MAX_SCORE = cdiv (int (WIDTH * HEIGHT) + 1) 2"

record Position =
  current_position :: position_t
  mask_pos :: position_t
  moves :: nat

definition empty_position :: Position where
  "empty_position = \<lparr>current_position = 0, mask_pos = 0, moves = 0\<rparr>"

fun bottom :: "nat \<Rightarrow> position_t" where
  "bottom 0 = 0"
| "bottom (Suc w) = bottom w OR push_bit (w * (HEIGHT + 1)) 1"

definition bottom_mask :: position_t where
  "bottom_mask = bottom WIDTH"

definition board_mask :: position_t where
  "board_mask = bottom_mask * (push_bit HEIGHT 1 - 1)"

definition top_mask_col :: "nat \<Rightarrow> position_t" where
  "top_mask_col col = push_bit ((HEIGHT - 1) + col * (HEIGHT + 1)) 1"

definition bottom_mask_col :: "nat \<Rightarrow> position_t" where
  "bottom_mask_col col = push_bit (col * (HEIGHT + 1)) 1"

definition column_mask :: "nat \<Rightarrow> position_t" where
  "column_mask col = push_bit (col * (HEIGHT + 1)) (push_bit HEIGHT 1 - 1)"

definition nbMoves :: "Position \<Rightarrow> int" where
  "nbMoves P = int (moves P)"

definition key :: "Position \<Rightarrow> position_t" where
  "key P = current_position P + mask_pos P"

text \<open>The lowest empty cell of every column that is not full.\<close>

definition possible :: "Position \<Rightarrow> position_t" where
  "possible P = (mask_pos P + bottom_mask) AND board_mask"

text \<open>
  The winning cells of the player whose stones are \<open>position\<close>: every free cell of the
  board that completes a run of four with three of these stones, vertically,
  horizontally (shift \<open>HEIGHT + 1\<close>) and on the two diagonals (shifts \<open>HEIGHT\<close> and
  \<open>HEIGHT + 2\<close>); three in a row and the split patterns.
\<close>

definition alignments :: "nat \<Rightarrow> position_t \<Rightarrow> position_t" where
  "alignments d position =
    (let p = push_bit d position AND push_bit (2 * d) position;
         q = drop_bit d position AND drop_bit (2 * d) position
     in (p AND push_bit (3 * d) position) OR (p AND drop_bit d position)
        OR (q AND push_bit d position) OR (q AND drop_bit (3 * d) position))"

definition compute_winning_position :: "position_t \<Rightarrow> position_t \<Rightarrow> position_t" where
  "compute_winning_position position msk =
    (let r = push_bit 1 position AND push_bit 2 position AND push_bit 3 position;
         r = r OR alignments (HEIGHT + 1) position;
         r = r OR alignments HEIGHT position;
         r = r OR alignments (HEIGHT + 2) position
     in r AND (board_mask XOR msk))"

definition winning_position :: "Position \<Rightarrow> position_t" where
  "winning_position P = compute_winning_position (current_position P) (mask_pos P)"

definition opponent_winning_position :: "Position \<Rightarrow> position_t" where
  "opponent_winning_position P =
     compute_winning_position (current_position P XOR mask_pos P) (mask_pos P)"

definition canWinNext :: "Position \<Rightarrow> bool" where
  "canWinNext P = (winning_position P AND possible P \<noteq> 0)"

definition canPlay :: "Position \<Rightarrow> nat \<Rightarrow> bool" where
  "canPlay P col = (mask_pos P AND top_mask_col col = 0)"

definition isWinningMove :: "Position \<Rightarrow> nat \<Rightarrow> bool" where
  "isWinningMove P col = (winning_position P AND possible P AND column_mask col \<noteq> 0)"

text \<open>\<open>play(move)\<close>: the stones of the player to move become the opponent's view.\<close>

definition play :: "Position \<Rightarrow> position_t \<Rightarrow> Position" where
  "play P move = \<lparr>current_position = current_position P XOR mask_pos P,
                  mask_pos = mask_pos P OR move,
                  moves = moves P + 1\<rparr>"

definition playCol :: "Position \<Rightarrow> nat \<Rightarrow> Position" where
  "playCol P col = play P ((mask_pos P + bottom_mask_col col) AND column_mask col)"

text \<open>
  \<open>play(sequence_string)\<close>: the characters \<open>'1'..'7'\<close> name columns; the result is the
  number of moves applied and the position reached. It stops at the first character
  that is out of range, names a full column, or would complete an alignment.
\<close>

fun play_seq :: "Position \<Rightarrow> string \<Rightarrow> nat \<times> Position" where
  "play_seq P [] = (0, P)"
| "play_seq P (c # cs) =
     (let col = int (of_char c :: nat) - int (of_char CHR ''1'' :: nat) in
      if col < 0 \<or> col \<ge> int WIDTH \<or> \<not> canPlay P (nat col) \<or> isWinningMove P (nat col)
      then (0, P)
      else (case play_seq (playCol P (nat col)) cs of (n, P') \<Rightarrow> (Suc n, P')))"

definition possibleNonLosingMoves :: "Position \<Rightarrow> position_t" where
  "possibleNonLosingMoves P =
    (let possible_mask = possible P;
         opponent_win = opponent_winning_position P;
         forced_moves = possible_mask AND opponent_win
     in if forced_moves \<noteq> 0
        then (if forced_moves AND (forced_moves - 1) \<noteq> 0 then 0
              else forced_moves AND NOT (drop_bit 1 opponent_win))
        else possible_mask AND NOT (drop_bit 1 opponent_win))"

definition popcount :: "position_t \<Rightarrow> nat" where
  "popcount m = length (filter (bit m) [0..<64])"

definition moveScore :: "Position \<Rightarrow> position_t \<Rightarrow> int" where
  "moveScore P move =
     int (popcount (compute_winning_position (current_position P OR move) (mask_pos P)))"

section \<open>TranspositionTable (TranspositionTable.hpp)\<close>

text \<open>
  Modelled from the spec: \<open>TranspositionTable.hpp\<close> is not among the sources. Section
  4.2 of the specification: two parallel arrays of \<open>C\<close> slots, \<open>C\<close> a prime near
  \<open>2^23\<close> (the solver instantiates the table with 49-bit keys and \<open>log_size = 23\<close>; the
  first prime above \<open>2^23\<close> is taken), holding the low 32 bits of the key and the
  value; \<open>put\<close> overwrites the slot \<open>key mod C\<close>, \<open>get\<close> returns the value of that
  slot when the partial keys agree and 0 otherwise, \<open>reset\<close> zeroes both arrays.
\<close>

record TranspositionTable =
  partial_keys :: "nat \<Rightarrow> 32 word"
  vals :: "nat \<Rightarrow> int"

definition tt_size :: nat where
  "tt_size = 8388617"

definition tt_index :: "position_t \<Rightarrow> nat" where
  "tt_index k = unat k mod tt_size"

definition tt_reset :: TranspositionTable where
  "tt_reset = \<lparr>partial_keys = (\<lambda>_. 0), vals = (\<lambda>_. 0)\<rparr>"

definition tt_put :: "TranspositionTable \<Rightarrow> position_t \<Rightarrow> int \<Rightarrow> TranspositionTable" where
  "tt_put T k v = \<lparr>partial_keys = (partial_keys T)(tt_index k := ucast k),
                   vals = (vals T)(tt_index k := v)\<rparr>"

definition tt_get :: "TranspositionTable \<Rightarrow> position_t \<Rightarrow> int" where
  "tt_get T k = (if partial_keys T (tt_index k) = ucast k then vals T (tt_index k) else 0)"

section \<open>MoveSorter (MoveSorter.hpp)\<close>

text \<open>
  Modelled from the spec: \<open>MoveSorter.hpp\<close> is not among the sources. Section 4.3 of
  the specification: at most \<open>WIDTH\<close> entries \<open>(move, score)\<close> kept in ascending score
  order; \<open>add\<close> inserts above the entries of strictly lower score, \<open>getNext\<close> pops the
  entry of highest score and returns 0 when the sorter is empty.
\<close>

type_synonym MoveSorter = "(position_t \<times> int) list"

fun sorter_add :: "position_t \<Rightarrow> int \<Rightarrow> MoveSorter \<Rightarrow> MoveSorter" where
  "sorter_add move score [] = [(move, score)]"
| "sorter_add move score (e # es) =
     (if snd e < score then e # sorter_add move score es else (move, score) # e # es)"

definition getNext :: "MoveSorter \<Rightarrow> position_t \<times> MoveSorter" where
  "getNext es = (if es = [] then (0, []) else (fst (last es), butlast es))"

section \<open>Solver (solver.cpp)\<close>

record Solver =
  nodeCount :: "64 word"
  transTable :: TranspositionTable

text \<open>The constructor's column exploration order, with C++ integer arithmetic.\<close>

definition columnOrder :: "nat \<Rightarrow> int" where
  "columnOrder i = cdiv (int WIDTH) 2 + cdiv ((1 - 2 * (int i mod 2)) * (int i + 1)) 2"

text \<open>
  The loop \<open>for(int i = WIDTH; i--; )\<close> of \<open>negamax\<close>: columns \<open>columnOrder[6]\<close> down to
  \<open>columnOrder[0]\<close>, each move of \<open>next\<close> added to the sorter with its score.
\<close>

definition sort_moves :: "Position \<Rightarrow> position_t \<Rightarrow> MoveSorter" where
  "sort_moves P next =
     fold (\<lambda>i ms. let move = next AND column_mask (nat (columnOrder i))
                   in if move \<noteq> 0 then sorter_add move (moveScore P move) ms else ms)
          (rev [0..<WIDTH]) []"

text \<open>
  How the \<open>while\<close> loop over the sorted moves ends: by the \<open>return score\<close> of a beta
  cutoff, or by running out of moves with the current \<open>alpha\<close>.
\<close>

datatype loop_exit = Return int | Exhausted int

text \<open>
  \<open>negamax\<close> and its exploration loop. A failed \<open>assert\<close> aborts the program: the
  result is \<open>None\<close>. The solver's state (node counter, transposition table) is passed
  through every call.
\<close>

function negamax :: "Position \<Rightarrow> int \<Rightarrow> int \<Rightarrow> Solver \<Rightarrow> (int \<times> Solver) option"
  and explore :: "Position \<Rightarrow> MoveSorter \<Rightarrow> int \<Rightarrow> int \<Rightarrow> Solver \<Rightarrow> (loop_exit \<times> Solver) option"
where
  "negamax P alpha beta S =
    (if \<not> alpha < beta \<or> canWinNext P then None
     else
      let S1 = S\<lparr>nodeCount := nodeCount S + 1\<rparr>;
          next = possibleNonLosingMoves P
      in if next = 0 then Some (cdiv (- (int (WIDTH * HEIGHT) - nbMoves P)) 2, S1)
      else if nbMoves P \<ge> int (WIDTH * HEIGHT) - 2 then Some (0, S1)
      else
       let mn = cdiv (- (int (WIDTH * HEIGHT) - 2 - nbMoves P)) 2 in
       if alpha < mn \<and> mn \<ge> beta then Some (mn, S1)
       else
        let alpha1 = (if alpha < mn then mn else alpha);
            val = tt_get (transTable S1) (key P);
            mx = (if val \<noteq> 0 then val + MIN_SCORE - 1
                  else cdiv (int (WIDTH * HEIGHT) - 1 - nbMoves P) 2)
        in if beta > mx \<and> alpha1 \<ge> mx then Some (mx, S1)
        else
         let beta1 = (if beta > mx then mx else beta) in
         (case explore P (sort_moves P next) alpha1 beta1 S1 of
            None \<Rightarrow> None
          | Some (Return score, S2) \<Rightarrow> Some (score, S2)
          | Some (Exhausted a, S2) \<Rightarrow>
              Some (a, S2\<lparr>transTable := tt_put (transTable S2) (key P) (a - MIN_SCORE + 1)\<rparr>)))"
| "explore P ms alpha beta S =
    (case getNext ms of (next, ms') \<Rightarrow>
      if next = 0 then Some (Exhausted alpha, S)
      else
       (case negamax (play P next) (- beta) (- alpha) S of
          None \<Rightarrow> None
        | Some (r, S') \<Rightarrow>
            let score = - r in
            if score \<ge> beta then Some (Return score, S')
            else explore P ms' (if score > alpha then score else alpha) beta S'))"
  by pat_completeness auto
termination
proof (relation "measures [(\<lambda>x. case x of Inl (P, _) \<Rightarrow> 41 - moves P | Inr (P, _) \<Rightarrow> 40 - moves P),
                           (\<lambda>x. case x of Inl _ \<Rightarrow> 0 | Inr (_, ms, _) \<Rightarrow> length ms)]")
qed (auto simp: getNext_def play_def nbMoves_def split: if_splits)

text \<open>The probe of one iteration of \<open>solve\<close>: the midpoint, biased towards zero.\<close>

definition probe :: "int \<Rightarrow> int \<Rightarrow> int" where
  "probe mn mx =
    (let med = mn + cdiv (mx - mn) 2 in
     if med \<le> 0 \<and> cdiv mn 2 < med then cdiv mn 2
     else if med \<ge> 0 \<and> cdiv mx 2 > med then cdiv mx 2
     else med)"

lemma cdiv_2_nonneg: "0 \<le> a \<Longrightarrow> cdiv a 2 = a div 2"
  by (simp add: cdiv_def sgn_if)

lemma cdiv_2_neg: "a \<le> 0 \<Longrightarrow> cdiv a 2 = - ((- a) div 2)"
  by (simp add: cdiv_def sgn_if)

lemma probe_bounds:
  assumes "mn < mx"
  shows "mn \<le> probe mn mx" and "probe mn mx < mx"
proof -
  have m: "cdiv (mx - mn) 2 = (mx - mn) div 2"
    using assms by (simp add: cdiv_2_nonneg)
  have a: "mn \<le> 0 \<Longrightarrow> mn \<le> cdiv mn 2"
    by (simp add: cdiv_2_neg)
  have b: "0 < mx \<Longrightarrow> cdiv mx 2 < mx"
    by (simp add: cdiv_2_nonneg)
  have c: "mn \<le> mn + (mx - mn) div 2" "mn + (mx - mn) div 2 < mx"
    using assms by simp_all
  show "mn \<le> probe mn mx"
    using a c assms by (auto simp: probe_def Let_def m)
  show "probe mn mx < mx"
    using b c assms by (auto simp: probe_def Let_def m)
qed

text \<open>
  The \<open>while(min < max)\<close> loop of \<open>solve\<close>; the result holds the final \<open>min\<close> and \<open>max\<close>.
\<close>

function narrow :: "Position \<Rightarrow> int \<Rightarrow> int \<Rightarrow> Solver \<Rightarrow> (int \<times> int \<times> Solver) option" where
  "narrow P mn mx S =
    (if mn < mx then
       (let med = probe mn mx in
        case negamax P med (med + 1) S of
          None \<Rightarrow> None
        | Some (r, S') \<Rightarrow> if r \<le> med then narrow P mn r S' else narrow P r mx S')
     else Some (mn, mx, S))"
  by pat_completeness auto
termination
proof (relation "measure (\<lambda>(P, mn, mx, S). nat (mx - mn))")
  show "wf (measure (\<lambda>(P, mn, mx, S). nat (mx - mn)))"
    by simp
next
  fix P :: Position and mn mx :: int and S :: Solver and med x2 r S'
  assume "mn < mx" "med = probe mn mx" "r \<le> med"
  then show "((P, mn, r, S'), (P, mn, mx, S)) \<in> measure (\<lambda>(P, mn, mx, S). nat (mx - mn))"
    using probe_bounds [of mn mx] by simp
next
  fix P :: Position and mn mx :: int and S :: Solver and med x2 r S'
  assume "mn < mx" "med = probe mn mx" "\<not> r \<le> med"
  then show "((P, r, mx, S'), (P, mn, mx, S)) \<in> measure (\<lambda>(P, mn, mx, S). nat (mx - mn))"
    using probe_bounds [of mn mx] by simp
qed

definition solve :: "Position \<Rightarrow> bool \<Rightarrow> Solver \<Rightarrow> (int \<times> Solver) option" where
  "solve P weak S =
    (if canWinNext P then Some (cdiv (int (WIDTH * HEIGHT) + 1 - nbMoves P) 2, S)
     else
      let mn = (if weak then - 1 else cdiv (- (int (WIDTH * HEIGHT) - nbMoves P)) 2);
          mx = (if weak then 1 else cdiv (int (WIDTH * HEIGHT) + 1 - nbMoves P) 2)
      in map_option (\<lambda>(mn', mx', S'). (mn', S')) (narrow P mn mx S))"

definition reset :: "Solver \<Rightarrow> Solver" where
  "reset S = \<lparr>nodeCount = 0, transTable = tt_reset\<rparr>"

declare negamax.simps [simp del] explore.simps [simp del] narrow.simps [simp del]

section \<open>Evaluating positions\<close>

lemma bottom_mask_num: "bottom_mask = 4432676798593"
  by (simp add: bottom_mask_def eval_nat_numeral)

lemma board_mask_num: "board_mask = 279258638311359"
  by (simp add: board_mask_def bottom_mask_num)

lemmas position_eval =
  empty_position_def canPlay_def isWinningMove_def playCol_def play_def top_mask_col_def
  winning_position_def opponent_winning_position_def compute_winning_position_def
  alignments_def possible_def column_mask_def bottom_mask_col_def bottom_mask_num
  board_mask_num canWinNext_def possibleNonLosingMoves_def key_def nbMoves_def

lemma play_seq_112233:
  "play_seq empty_position ''112233'' =
     (6, \<lparr>current_position = 16513, mask_pos = 49539, moves = 6\<rparr>)"
  by (simp add: position_eval)

lemma canWinNext_112233:
  "canWinNext \<lparr>current_position = 16513, mask_pos = 49539, moves = 6\<rparr>"
  by (simp add: position_eval)

section \<open>The immediate win in \<open>solve\<close>\<close>

text \<open>
  C6. When the player to move can win with the next stone, \<open>solve\<close> returns the
  immediate-win score \<open>(WIDTH * HEIGHT + 1 - nbMoves) / 2\<close> for both values of the weak
  flag, and the solver's state (node counter and transposition table) is returned as
  it was given: \<open>negamax\<close>, which counts every call, has not run.
\<close>

theorem solve_immediate_win:
  "canWinNext P \<Longrightarrow>
     solve P weak S = Some (cdiv (int (WIDTH * HEIGHT) + 1 - nbMoves P) 2, S)"
  by (simp add: solve_def)

theorem solve_immediate_win_witness:
  "play_seq empty_position ''112233''
     = (6, \<lparr>current_position = 16513, mask_pos = 49539, moves = 6\<rparr>)
   \<and> canWinNext \<lparr>current_position = 16513, mask_pos = 49539, moves = 6\<rparr>
   \<and> solve \<lparr>current_position = 16513, mask_pos = 49539, moves = 6\<rparr> True
         \<lparr>nodeCount = 0, transTable = tt_reset\<rparr>
       = Some (18, \<lparr>nodeCount = 0, transTable = tt_reset\<rparr>)
   \<and> solve \<lparr>current_position = 16513, mask_pos = 49539, moves = 6\<rparr> False
         \<lparr>nodeCount = 0, transTable = tt_reset\<rparr>
       = Some (18, \<lparr>nodeCount = 0, transTable = tt_reset\<rparr>)"
  using solve_immediate_win [OF canWinNext_112233, of True "\<lparr>nodeCount = 0, transTable = tt_reset\<rparr>"]
    solve_immediate_win [OF canWinNext_112233, of False "\<lparr>nodeCount = 0, transTable = tt_reset\<rparr>"]
    play_seq_112233 canWinNext_112233
  by (simp add: nbMoves_def cdiv_def)

end
